theory Spec2Isabelle
  imports Complex_Main
begin

section \<open>Ford FG HVAC display: the state record\<close>

text \<open>
  The dataclass \<open>HVACState\<close> of \<open>monochrome.py\<close>. Python's \<open>float\<close> field
  \<open>set_temp\<close> is modelled by a rational: the handlers only add and subtract \<open>0.5\<close>,
  the values they produce from the default are multiples of one half between 16 and 32, and
  on those binary floating point arithmetic is exact. Python's unbounded \<open>int\<close> is
  \<open>int\<close>.
\<close>

record HVACState =
  set_temp :: rat
  outside_temp :: int
  fan_speed :: int
  ac_on :: bool
  auto_mode :: bool
  front_defrost :: bool
  rear_defrost :: bool
  hours :: int
  minutes :: int

definition HVACState_default :: HVACState where
  "HVACState_default =
     \<lparr>set_temp = 47 / 2, outside_temp = - 12, fan_speed = 5, ac_on = False,
      auto_mode = True, front_defrost = True, rear_defrost = True,
      hours = 13, minutes = 28\<rparr>"

section \<open>String formatting\<close>

text \<open>
  Strings are lists of code points below 256; the degree sign U+00B0 is \<open>CHR 0xB0\<close>.
  \<open>digits\<close> is the decimal numeral of a natural number, \<open>str_int\<close> is Python's
  \<open>str\<close> on an \<open>int\<close>, \<open>format_02d\<close> is the format spec \<open>02d\<close> and
  \<open>format_04_1f\<close> the format spec \<open>04.1f\<close>: one decimal place, rounded half to
  even on the exact value, sign-aware zero padding to width 4.
\<close>

fun digits :: "nat \<Rightarrow> string" where
  "digits n =
     (if n < 10 then [''0123456789'' ! n]
      else digits (n div 10) @ [''0123456789'' ! (n mod 10)])"

declare digits.simps [simp del]

definition sign_str :: "bool \<Rightarrow> string" where
  "sign_str neg = (if neg then ''-'' else [])"

definition zero_pad :: "nat \<Rightarrow> string \<Rightarrow> string \<Rightarrow> string" where
  "zero_pad width sign body =
     sign @ replicate (width - length sign - length body) (CHR ''0'') @ body"

definition str_int :: "int \<Rightarrow> string" where
  "str_int n = sign_str (n < 0) @ digits (nat \<bar>n\<bar>)"

definition format_02d :: "int \<Rightarrow> string" where
  "format_02d n = zero_pad 2 (sign_str (n < 0)) (digits (nat \<bar>n\<bar>))"

definition round_half_even :: "rat \<Rightarrow> int" where
  "round_half_even q =
     (let f = \<lfloor>q\<rfloor>; r = q - of_int f
      in if r < 1 / 2 then f
         else if 1 / 2 < r then f + 1
         else if even f then f else f + 1)"

definition format_04_1f :: "rat \<Rightarrow> string" where
  "format_04_1f v =
     (let n = nat (round_half_even (\<bar>v\<bar> * 10))
      in zero_pad 4 (sign_str (v < 0))
           (digits (n div 10) @ ''.'' @ digits (n mod 10)))"

section \<open>Canvas items\<close>

text \<open>
  One constructor per Tk canvas call of the display panel. All items are drawn in the
  foreground colour; \<open>filled\<close> tells \<open>fill=FG_COLOR\<close> from \<open>fill=''\<close>. The clock
  ticks and the snowflake rays are placed with \<open>math.cos\<close> and \<open>math.sin\<close>;
  \<open>Radial cx cy r1 r2 deg width\<close> stands for the line from radius \<open>r1\<close> to radius
  \<open>r2\<close> about \<open>(cx, cy)\<close> at \<open>deg\<close> degrees, the trigonometry left symbolic.
\<close>

datatype anchor = Center | West

type_synonym font = "string \<times> int \<times> bool"

datatype item =
    Line "int list" int
  | ArrowLine "int list" int
  | Radial int int int int int int
  | Text int int string font anchor
  | Polygon "int list" bool int
  | Oval int int int int bool int
  | Rectangle int int int int bool int

section \<open>The seven-segment renderer\<close>

type_synonym segs = "int \<times> int \<times> int \<times> int \<times> int \<times> int \<times> int"

definition patterns :: "(char \<times> segs) list" where
  "patterns =
     [(CHR ''0'', (1,1,1,1,1,1,0)),
      (CHR ''1'', (0,1,1,0,0,0,0)),
      (CHR ''2'', (1,1,0,1,1,0,1)),
      (CHR ''3'', (1,1,1,1,0,0,1)),
      (CHR ''4'', (0,1,1,0,0,1,1)),
      (CHR ''5'', (1,0,1,1,0,1,1)),
      (CHR ''6'', (1,0,1,1,1,1,1)),
      (CHR ''7'', (1,1,1,0,0,0,0)),
      (CHR ''8'', (1,1,1,1,1,1,1)),
      (CHR ''9'', (1,1,1,1,0,1,1)),
      (CHR ''-'', (0,0,0,0,0,0,1)),
      (CHR '' '', (0,0,0,0,0,0,0))]"

definition patterns_get :: "char \<Rightarrow> segs" where
  "patterns_get digit =
     (case map_of patterns digit of Some s \<Rightarrow> s | None \<Rightarrow> (0,0,0,0,0,0,0))"

definition seg :: "int \<Rightarrow> int list \<Rightarrow> item list" where
  "seg flag coords = (if flag \<noteq> 0 then [Polygon coords True 1] else [])"

definition draw_7seg :: "int \<Rightarrow> int \<Rightarrow> char \<Rightarrow> string \<Rightarrow> item list" where
  "draw_7seg x y digit sz =
     (let (w, h, t) = (if sz = ''large'' then (24, 44, 5) else (12, 20, 3));
          (sa, sb, sc, sd, se, sf, sg) = patterns_get digit
      in seg sa [x + t, y, x + w - t, y, x + w - t - 2, y + t, x + t + 2, y + t]
       @ seg sb [x + w, y + t, x + w, y + h div 2 - 2,
                 x + w - t, y + h div 2 - 2, x + w - t, y + t + 2]
       @ seg sc [x + w, y + h div 2 + 2, x + w, y + h - t,
                 x + w - t, y + h - t - 2, x + w - t, y + h div 2 + 2]
       @ seg sd [x + t, y + h, x + w - t, y + h, x + w - t - 2, y + h - t, x + t + 2, y + h - t]
       @ seg se [x, y + h div 2 + 2, x, y + h - t, x + t, y + h - t - 2, x + t, y + h div 2 + 2]
       @ seg sf [x, y + t, x, y + h div 2 - 2, x + t, y + h div 2 - 2, x + t, y + t + 2]
       @ seg sg [x + t + 1, y + h div 2 - t div 2, x + w - t - 1, y + h div 2 - t div 2,
                 x + w - t - 1, y + h div 2 + t div 2, x + t + 1, y + h div 2 + t div 2])"

definition draw_small_7seg :: "int \<Rightarrow> int \<Rightarrow> char \<Rightarrow> item list" where
  "draw_small_7seg x y digit = draw_7seg x y digit ''small''"

section \<open>The display panel\<close>

text \<open>
  \<open>HVACDisplay.draw\<close> clears the canvas and redraws everything, so a render is the
  list of the items it creates, in the order of the calls.
\<close>

definition arial :: "int \<Rightarrow> font" where
  "arial n = (''Arial'', n, False)"

definition arial_bold :: "int \<Rightarrow> font" where
  "arial_bold n = (''Arial'', n, True)"

definition draw_car :: "int \<Rightarrow> int \<Rightarrow> item list" where
  "draw_car cx cy =
     [Polygon [cx - 18, cy + 5, cx - 14, cy - 1, cx - 7, cy - 6,
               cx + 5, cy - 6, cx + 11, cy - 1, cx + 16, cy + 5] False 2,
      Oval (cx - 14) (cy + 2) (cx - 6) (cy + 10) False 2,
      Oval (cx + 4) (cy + 2) (cx + 12) (cy + 10) False 2]"

definition zigzag :: "int \<Rightarrow> int \<Rightarrow> int \<Rightarrow> item" where
  "zigzag cx cy offset =
     Line (concat (map (\<lambda>i. [cx + offset + (if i mod 2 = 0 then 4 else - 4),
                                  cy - 12 + i * 7]) [0..4])) 2"

definition draw_front_defrost :: "int \<Rightarrow> int \<Rightarrow> item list" where
  "draw_front_defrost cx cy =
     [Polygon [cx - 22, cy + 18, cx - 14, cy - 18, cx + 14, cy - 18, cx + 22, cy + 18] False 2]
     @ map (zigzag cx cy) [- 8, 0, 8]
     @ [Text cx (cy + 30) ''Front'' (arial 9) Center]"

definition draw_airflow_person :: "int \<Rightarrow> int \<Rightarrow> item list" where
  "draw_airflow_person cx cy =
     [ArrowLine [cx - 45, cy - 20, cx - 20, cy - 20] 2,
      Oval (cx - 5) (cy - 30) (cx + 10) (cy - 15) False 2,
      Line [cx + 2, cy - 15, cx - 2, cy + 5] 2,
      Line [cx - 15, cy + 20, cx - 10, cy - 5] 2,
      ArrowLine [cx - 45, cy + 10, cx - 20, cy + 10] 2,
      Line [cx - 15, cy + 20, cx + 15, cy + 20] 2,
      Line [cx - 2, cy + 5, cx + 12, cy + 20] 2]"

definition draw_snowflake :: "int \<Rightarrow> int \<Rightarrow> item list" where
  "draw_snowflake cx cy = map (\<lambda>k. Radial cx cy 0 8 (k * 60) 2) [0..5]"

definition draw_clock_ticks :: "int \<Rightarrow> int \<Rightarrow> int \<Rightarrow> item list" where
  "draw_clock_ticks clock_cx clock_cy clock_radius =
     map (\<lambda>i. if i mod 5 = 0
               then Radial clock_cx clock_cy (clock_radius - 9) clock_radius (i * 6 - 90) 2
               else Radial clock_cx clock_cy (clock_radius - 5) clock_radius (i * 6 - 90) 1)
         [0..59]"

definition time_str :: "HVACState \<Rightarrow> string" where
  "time_str s = format_02d (hours s) @ '':'' @ format_02d (minutes s)"

definition draw_outside_temp :: "HVACState \<Rightarrow> item list" where
  "draw_outside_temp s =
     [Text 310 15 ''Outside'' (arial 10) West]
     @ draw_small_7seg 365 8 (CHR ''-'')
     @ draw_small_7seg 378 8 (CHR ''1'')
     @ draw_small_7seg 394 8 (CHR ''2'')
     @ [Text 415 15 [CHR 0xB0, CHR ''C''] (arial 10) West]"

text \<open>
  The loop over the characters of the formatted set temperature: it returns the items and
  the final \<open>x_pos\<close>, which places the degree sign.
\<close>

fun draw_temp_chars :: "int \<Rightarrow> int \<Rightarrow> string \<Rightarrow> item list \<times> int" where
  "draw_temp_chars x_pos temp_y [] = ([], x_pos)"
| "draw_temp_chars x_pos temp_y (c # cs) =
     (if c = CHR ''.''
      then (let (items, x_end) = draw_temp_chars (x_pos + 10) temp_y cs
            in (Oval x_pos (temp_y + 42) (x_pos + 6) (temp_y + 48) True 1 # items, x_end))
      else (let (items, x_end) = draw_temp_chars (x_pos + 32) temp_y cs
            in (draw_7seg x_pos temp_y c ''large'' @ items, x_end)))"

definition draw_set_temp :: "HVACState \<Rightarrow> item list" where
  "draw_set_temp s =
     (let temp_x = 455; temp_y = 28;
          temp_str = format_04_1f (set_temp s);
          (items, x_pos) = draw_temp_chars temp_x temp_y temp_str
      in [Text 480 12 ''Set Temp'' (arial 10) West]
         @ items
         @ [Text (x_pos + 5) (temp_y + 5) [CHR 0xB0] (arial_bold 14) West])"

definition draw_fan_bar :: "HVACState \<Rightarrow> item list" where
  "draw_fan_bar s =
     (let bar_x = 482; bar_y = 88
      in map (\<lambda>i. let x = bar_x + i * 13
                   in Rectangle x bar_y (x + 10) (bar_y + 14) (i < fan_speed s) 1)
             [0..7])"

definition draw_bottom_labels :: "HVACState \<Rightarrow> item list" where
  "draw_bottom_labels s =
     [Text 250 130 ''Semi-Auto'' (arial 11) Center,
      Text 520 130 ''A/C Off'' (arial 11) Center]"

definition draw :: "HVACState \<Rightarrow> item list" where
  "draw s =
     (let clock_cx = 70; clock_cy = 68; clock_radius = 52
      in draw_clock_ticks clock_cx clock_cy clock_radius
         @ [Text clock_cx (clock_cy - 5) (time_str s) (''Consolas'', 18, True) Center]
         @ draw_car clock_cx (clock_cy + 28)
         @ [Text 138 48 ''Auto'' (arial_bold 13) West]
         @ draw_front_defrost 200 55
         @ draw_airflow_person 295 60
         @ [Oval 370 45 382 57 True 1,
            Text 408 72 ''Rear'' (arial 9) Center]
         @ draw_outside_temp s
         @ draw_set_temp s
         @ draw_snowflake 462 95
         @ draw_fan_bar s
         @ [Line [15, 115, 565, 115] 1]
         @ draw_bottom_labels s)"

section \<open>The application\<close>

text \<open>
  The application owns the state; the display panel holds a reference to the same object.
  Its effects are the lines printed to standard output and the renders issued to the
  display canvas, both kept as lists in the order they happen. A printed line is a list of
  pieces: literal text, and for the temperature line Python's \<open>repr\<close> of the float, left
  as the value.
\<close>

datatype piece = Str string | FloatRepr rat

type_synonym out_line = "piece list"

record App =
  state :: HVACState
  stdout :: "out_line list"
  frames :: "item list list"

definition print_line :: "out_line \<Rightarrow> App \<Rightarrow> App" where
  "print_line l a = a\<lparr>stdout := stdout a @ [l]\<rparr>"

definition refresh :: "App \<Rightarrow> App" where
  "refresh a = a\<lparr>frames := frames a @ [draw (state a)]\<rparr>"

definition on_off_str :: "bool \<Rightarrow> string" where
  "on_off_str b = (if b then ''On'' else ''Off'')"

definition on_off :: "App \<Rightarrow> App" where
  "on_off a = print_line [Str ''[CAN TX] OFF pressed''] a"

definition on_recirc :: "App \<Rightarrow> App" where
  "on_recirc a = print_line [Str ''[CAN TX] Recirc pressed''] a"

definition on_ac :: "App \<Rightarrow> App" where
  "on_ac a =
     (let a1 = a\<lparr>state := (state a)\<lparr>ac_on := \<not> ac_on (state a)\<rparr>\<rparr>;
          a2 = print_line [Str (''[CAN TX] A/C: '' @ on_off_str (ac_on (state a1)))] a1
      in refresh a2)"

definition on_auto :: "App \<Rightarrow> App" where
  "on_auto a =
     (let a1 = a\<lparr>state := (state a)\<lparr>auto_mode := \<not> auto_mode (state a)\<rparr>\<rparr>;
          a2 = print_line [Str (''[CAN TX] Auto: '' @ on_off_str (auto_mode (state a1)))] a1
      in refresh a2)"

definition on_front_def :: "App \<Rightarrow> App" where
  "on_front_def a =
     (let a1 = a\<lparr>state := (state a)\<lparr>front_defrost := \<not> front_defrost (state a)\<rparr>\<rparr>;
          a2 = print_line
                 [Str (''[CAN TX] Front Defrost: '' @ on_off_str (front_defrost (state a1)))] a1
      in refresh a2)"

definition on_rear_def :: "App \<Rightarrow> App" where
  "on_rear_def a =
     (let a1 = a\<lparr>state := (state a)\<lparr>rear_defrost := \<not> rear_defrost (state a)\<rparr>\<rparr>;
          a2 = print_line
                 [Str (''[CAN TX] Rear Defrost: '' @ on_off_str (rear_defrost (state a1)))] a1
      in refresh a2)"

definition on_fan_up :: "App \<Rightarrow> App" where
  "on_fan_up a =
     (if fan_speed (state a) < 8
      then (let a1 = a\<lparr>state := (state a)\<lparr>fan_speed := fan_speed (state a) + 1\<rparr>\<rparr>;
                a2 = print_line [Str (''[CAN TX] Fan: '' @ str_int (fan_speed (state a1)))] a1
            in refresh a2)
      else a)"

definition on_fan_down :: "App \<Rightarrow> App" where
  "on_fan_down a =
     (if 0 < fan_speed (state a)
      then (let a1 = a\<lparr>state := (state a)\<lparr>fan_speed := fan_speed (state a) - 1\<rparr>\<rparr>;
                a2 = print_line [Str (''[CAN TX] Fan: '' @ str_int (fan_speed (state a1)))] a1
            in refresh a2)
      else a)"

definition temp_line :: "rat \<Rightarrow> out_line" where
  "temp_line v = [Str ''[CAN TX] Temp: '', FloatRepr v, Str [CHR 0xB0, CHR ''C'']]"

definition on_temp_up :: "App \<Rightarrow> App" where
  "on_temp_up a =
     (if set_temp (state a) < 32
      then (let a1 = a\<lparr>state := (state a)\<lparr>set_temp := set_temp (state a) + 1 / 2\<rparr>\<rparr>;
                a2 = print_line (temp_line (set_temp (state a1))) a1
            in refresh a2)
      else a)"

definition on_temp_down :: "App \<Rightarrow> App" where
  "on_temp_down a =
     (if 16 < set_temp (state a)
      then (let a1 = a\<lparr>state := (state a)\<lparr>set_temp := set_temp (state a) - 1 / 2\<rparr>\<rparr>;
                a2 = print_line (temp_line (set_temp (state a1))) a1
            in refresh a2)
      else a)"

text \<open>
  \<open>_update_clock\<close> reads the wall clock; the hour and minute it reads are arguments.
  It reschedules itself after one second, which is the next \<open>Tick\<close> event below.
\<close>

definition update_clock :: "int \<Rightarrow> int \<Rightarrow> App \<Rightarrow> App" where
  "update_clock now_hour now_minute a =
     refresh (a\<lparr>state := (state a)\<lparr>hours := now_hour, minutes := now_minute\<rparr>\<rparr>)"

section \<open>Callbacks and click dispatch\<close>

text \<open>
  The callbacks dictionary maps a command name to a closure; \<open>cb_get\<close> is
  \<open>callbacks.get(name, lambda: None)()\<close>: an unbound name runs the do-nothing default.
  The two control panels take the dictionary as a constructor argument, so their click
  handlers are written over any dictionary and any type of state the closures act on.
\<close>

definition cb_get :: "(string \<rightharpoonup> ('s \<Rightarrow> 's)) \<Rightarrow> string \<Rightarrow> 's \<Rightarrow> 's" where
  "cb_get cbs name = (case cbs name of Some f \<Rightarrow> f | None \<Rightarrow> (\<lambda>s. s))"

definition HVACButtons_on_click :: "(string \<rightharpoonup> ('s \<Rightarrow> 's)) \<Rightarrow> int \<Rightarrow> 's \<Rightarrow> 's" where
  "HVACButtons_on_click cbs x =
     (if x < 72 then cb_get cbs ''off''
      else if x < 144 then cb_get cbs ''recirc''
      else if x < 216 then cb_get cbs ''ac''
      else if x < 288 then cb_get cbs ''auto''
      else if x < 360 then cb_get cbs ''hazard''
      else if x < 432 then cb_get cbs ''front_def''
      else if x < 504 then cb_get cbs ''air_dir''
      else cb_get cbs ''rear_def'')"

definition HVACSliders_on_click :: "(string \<rightharpoonup> ('s \<Rightarrow> 's)) \<Rightarrow> int \<Rightarrow> 's \<Rightarrow> 's" where
  "HVACSliders_on_click cbs x =
     (if x < 193 then
        (if x < 50 then cb_get cbs ''pass_temp_down''
         else if 140 < x then cb_get cbs ''pass_temp_up''
         else (\<lambda>s. s))
      else if x < 387 then
        (if x < 240 then cb_get cbs ''fan_down''
         else if 340 < x then cb_get cbs ''fan_up''
         else (\<lambda>s. s))
      else
        (if x < 430 then cb_get cbs ''drv_temp_down''
         else if 530 < x then cb_get cbs ''drv_temp_up''
         else (\<lambda>s. s)))"

definition callbacks :: "string \<rightharpoonup> (App \<Rightarrow> App)" where
  "callbacks = map_of
     [(''off'', on_off),
      (''recirc'', on_recirc),
      (''ac'', on_ac),
      (''auto'', on_auto),
      (''hazard'', print_line [Str ''[CAN] Hazard'']),
      (''front_def'', on_front_def),
      (''air_dir'', print_line [Str ''[CAN] Air direction'']),
      (''rear_def'', on_rear_def),
      (''fan_up'', on_fan_up),
      (''fan_down'', on_fan_down),
      (''pass_temp_up'', on_temp_up),
      (''pass_temp_down'', on_temp_down),
      (''drv_temp_up'', on_temp_up),
      (''drv_temp_down'', on_temp_down)]"

text \<open>
  The constructor: the default state, the first render when the display panel is built,
  then the first clock update. The button and slider panels draw once on canvases of their
  own, which no handler touches again.
\<close>

definition FordFGHVACApp_init :: "int \<Rightarrow> int \<Rightarrow> App" where
  "FordFGHVACApp_init now_hour now_minute =
     update_clock now_hour now_minute
       \<lparr>state = HVACState_default, stdout = [], frames = [draw HVACState_default]\<rparr>"

text \<open>
  What the event loop delivers: a click on either control panel at an x coordinate, the
  clock timer with the wall-clock hour and minute, or a command invoked by name.
\<close>

datatype event = ButtonClick int | SliderClick int | Tick int int | Invoke string

fun step :: "event \<Rightarrow> App \<Rightarrow> App" where
  "step (ButtonClick x) a = HVACButtons_on_click callbacks x a"
| "step (SliderClick x) a = HVACSliders_on_click callbacks x a"
| "step (Tick h m) a = update_clock h m a"
| "step (Invoke name) a = cb_get callbacks name a"

fun run :: "event list \<Rightarrow> App \<Rightarrow> App" where
  "run [] a = a"
| "run (e # es) a = run es (step e a)"

section \<open>Properties stated by the specification\<close>

text \<open>The state invariant: a half-degree step within 16 to 32, a fan level within 0 to 8.\<close>

definition half_step :: "rat \<Rightarrow> bool" where
  "half_step v = (of_int \<lfloor>2 * v\<rfloor> = 2 * v)"

definition temp_ok :: "rat \<Rightarrow> bool" where
  "temp_ok v = (half_step v \<and> 16 \<le> v \<and> v \<le> 32)"

definition fan_ok :: "int \<Rightarrow> bool" where
  "fan_ok n = (0 \<le> n \<and> n \<le> 8)"

definition state_ok :: "HVACState \<Rightarrow> bool" where
  "state_ok s = (temp_ok (set_temp s) \<and> fan_ok (fan_speed s))"

text \<open>
  A dictionary that binds every name to a closure appending the name to a trace: run on
  the empty trace, a click handler returns the callbacks it invoked, in order.
\<close>

definition recorder :: "string \<rightharpoonup> (string list \<Rightarrow> string list)" where
  "recorder name = Some (\<lambda>trace. trace @ [name])"

text \<open>
  The button bands as the specification words them: eight contiguous bands cut at seven
  breakpoints, the band of \<open>x\<close> being the number of breakpoints at or below it.
\<close>

definition button_breakpoints :: "int list" where
  "button_breakpoints = [72, 144, 216, 288, 360, 432, 504]"

definition button_commands :: "string list" where
  "button_commands =
     [''off'', ''recirc'', ''ac'', ''auto'', ''hazard'', ''front_def'', ''air_dir'', ''rear_def'']"

definition button_band :: "int \<Rightarrow> nat" where
  "button_band x = length (filter (\<lambda>b. b \<le> x) button_breakpoints)"

definition band_command :: "int \<Rightarrow> string" where
  "band_command x = button_commands ! button_band x"

text \<open>
  The slider zones as the specification words them: three thirds cut at 193 and 387, each
  with a decrement zone below its lower inner breakpoint, an increment zone above its upper
  one and a dead zone between.
\<close>

datatype zone = Decrement | Dead | Increment

definition slider_third :: "int \<Rightarrow> nat" where
  "slider_third x = (if x < 193 then 0 else if x < 387 then 1 else 2)"

definition inner_breakpoints :: "(int \<times> int) list" where
  "inner_breakpoints = [(50, 140), (240, 340), (430, 530)]"

definition slider_zone :: "int \<Rightarrow> zone" where
  "slider_zone x =
     (let (lo, hi) = inner_breakpoints ! slider_third x
      in if x < lo then Decrement else if hi < x then Increment else Dead)"

definition slider_names :: "(string \<times> string) list" where
  "slider_names =
     [(''pass_temp_down'', ''pass_temp_up''),
      (''fan_down'', ''fan_up''),
      (''drv_temp_down'', ''drv_temp_up'')]"

definition slider_command :: "int \<Rightarrow> string option" where
  "slider_command x =
     (let (down, up) = slider_names ! slider_third x
      in case slider_zone x of
           Decrement \<Rightarrow> Some down
         | Dead \<Rightarrow> None
         | Increment \<Rightarrow> Some up)"

text \<open>
  The temperature read-outs as the specification words them. A signed two-digit number is
  a sign position (a minus sign, or a blank: the only two glyphs of the table that are not
  digits) and two digits; a string is rendered by passing each character through the
  seven-segment renderer at its own x position. In the set temperature every character
  advances the position by its pitch, and the decimal point is a filled circle.
\<close>

definition signed_two_digit :: "int \<Rightarrow> string" where
  "signed_two_digit n = (if n < 0 then ''-'' else '' '') @ zero_pad 2 [] (digits (nat \<bar>n\<bar>))"

definition seven_seg_string :: "int list \<Rightarrow> int \<Rightarrow> string \<Rightarrow> string \<Rightarrow> item list" where
  "seven_seg_string xs y cs sz = concat (map (\<lambda>(x, c). draw_7seg x y c sz) (zip xs cs))"

definition pitch :: "char \<Rightarrow> int" where
  "pitch c = (if c = CHR ''.'' then 10 else 32)"

definition x_at :: "int \<Rightarrow> string \<Rightarrow> nat \<Rightarrow> int" where
  "x_at x cs i = x + sum_list (map pitch (take i cs))"

definition glyph :: "int \<Rightarrow> int \<Rightarrow> char \<Rightarrow> item list" where
  "glyph x y c =
     (if c = CHR ''.'' then [Oval x (y + 42) (x + 6) (y + 48) True 1]
      else draw_7seg x y c ''large'')"

definition glyphs :: "int \<Rightarrow> int \<Rightarrow> string \<Rightarrow> item list" where
  "glyphs x y cs = concat (map (\<lambda>i. glyph (x_at x cs i) y (cs ! i)) [0..<length cs])"

section \<open>Dispatch lemmas\<close>

lemma callbacks_simps:
  "callbacks ''off'' = Some on_off"
  "callbacks ''recirc'' = Some on_recirc"
  "callbacks ''ac'' = Some on_ac"
  "callbacks ''auto'' = Some on_auto"
  "callbacks ''hazard'' = Some (print_line [Str ''[CAN] Hazard''])"
  "callbacks ''front_def'' = Some on_front_def"
  "callbacks ''air_dir'' = Some (print_line [Str ''[CAN] Air direction''])"
  "callbacks ''rear_def'' = Some on_rear_def"
  "callbacks ''fan_up'' = Some on_fan_up"
  "callbacks ''fan_down'' = Some on_fan_down"
  "callbacks ''pass_temp_up'' = Some on_temp_up"
  "callbacks ''pass_temp_down'' = Some on_temp_down"
  "callbacks ''drv_temp_up'' = Some on_temp_up"
  "callbacks ''drv_temp_down'' = Some on_temp_down"
  by (simp_all add: callbacks_def)

lemma cb_get_recorder: "cb_get recorder name t = t @ [name]"
  by (simp add: cb_get_def recorder_def)

lemma button_band_cases:
  "button_band x =
     (if x < 72 then 0 else if x < 144 then 1 else if x < 216 then 2 else if x < 288 then 3
      else if x < 360 then 4 else if x < 432 then 5 else if x < 504 then 6 else 7)"
  by (simp add: button_band_def button_breakpoints_def)

lemma band_command_cases:
  "band_command x =
     (if x < 72 then ''off'' else if x < 144 then ''recirc'' else if x < 216 then ''ac''
      else if x < 288 then ''auto'' else if x < 360 then ''hazard''
      else if x < 432 then ''front_def'' else if x < 504 then ''air_dir'' else ''rear_def'')"
  by (simp add: band_command_def button_band_cases button_commands_def)

lemma HVACButtons_on_click_band:
  "HVACButtons_on_click cbs x = cb_get cbs (band_command x)"
  by (simp add: HVACButtons_on_click_def band_command_cases)

lemma callbacks_band_bound: "\<exists>f. callbacks (band_command x) = Some f"
  by (simp add: band_command_cases callbacks_simps)

lemma slider_command_cases:
  "slider_command x =
     (if x < 193 then (if x < 50 then Some ''pass_temp_down''
                       else if 140 < x then Some ''pass_temp_up'' else None)
      else if x < 387 then (if x < 240 then Some ''fan_down''
                            else if 340 < x then Some ''fan_up'' else None)
      else (if x < 430 then Some ''drv_temp_down''
            else if 530 < x then Some ''drv_temp_up'' else None))"
  by (simp add: slider_command_def slider_zone_def slider_third_def inner_breakpoints_def
        slider_names_def)

lemma HVACSliders_on_click_zone:
  "HVACSliders_on_click cbs x =
     (case slider_command x of None \<Rightarrow> (\<lambda>s. s) | Some name \<Rightarrow> cb_get cbs name)"
  by (simp add: HVACSliders_on_click_def slider_command_cases)

section \<open>Click dispatch\<close>

text \<open>
  C4. For every click x-coordinate the button panel invokes exactly one callback: the
  trace of invoked callbacks is the single command of the band containing \<open>x\<close> among the
  eight bands cut at 72, 144, 216, 288, 360, 432 and 504, that command is bound in the
  application's dictionary, and the click has the effect of running it. A click at
  \<open>x = 40\<close> invokes \<open>off\<close> and nothing else.
\<close>

theorem button_click_one_callback:
  "HVACButtons_on_click recorder x [] = [band_command x]
   \<and> (\<exists>f. callbacks (band_command x) = Some f \<and> HVACButtons_on_click callbacks x a = f a)
   \<and> band_command 40 = ''off''
   \<and> HVACButtons_on_click recorder 40 [] = [''off'']
   \<and> HVACButtons_on_click callbacks 40 a = on_off a"
proof -
  have one: "HVACButtons_on_click recorder y [] = [band_command y]" for y
    by (simp add: HVACButtons_on_click_band cb_get_recorder)
  obtain f where f: "callbacks (band_command x) = Some f"
    using callbacks_band_bound by blast
  then have app: "HVACButtons_on_click callbacks x a = f a"
    by (simp add: HVACButtons_on_click_band cb_get_def)
  have off: "band_command 40 = ''off''"
    by (simp add: band_command_cases)
  have "HVACButtons_on_click callbacks 40 a = on_off a"
    by (simp add: HVACButtons_on_click_band off cb_get_def callbacks_simps)
  with one [of x] one [of 40] f app off show ?thesis
    by simp
qed

text \<open>
  C10. Button dispatch is total over the integers: every \<open>x\<close> below 72, negative ones
  included, invokes \<open>off\<close>; every \<open>x\<close> from 504 on, beyond the panel width included,
  invokes \<open>rear_def\<close>; and for any \<open>x\<close> exactly one callback is invoked.
\<close>

theorem button_click_total:
  "(x < 72 \<longrightarrow> HVACButtons_on_click recorder x [] = [''off'']
               \<and> HVACButtons_on_click callbacks x a = on_off a)
   \<and> (504 \<le> x \<longrightarrow> HVACButtons_on_click recorder x [] = [''rear_def'']
               \<and> HVACButtons_on_click callbacks x a = on_rear_def a)
   \<and> length (HVACButtons_on_click recorder x []) = 1"
proof -
  have low: "band_command x = ''off''" if "x < 72"
    using that by (simp add: band_command_cases)
  have high: "band_command x = ''rear_def''" if "504 \<le> x"
    using that by (simp add: band_command_cases)
  have rec: "HVACButtons_on_click recorder x [] = [band_command x]"
    by (simp add: HVACButtons_on_click_band cb_get_recorder)
  have "HVACButtons_on_click callbacks x a = on_off a" if "x < 72"
    by (simp add: HVACButtons_on_click_band low [OF that] cb_get_def callbacks_simps)
  moreover have "HVACButtons_on_click callbacks x a = on_rear_def a" if "504 \<le> x"
    by (simp add: HVACButtons_on_click_band high [OF that] cb_get_def callbacks_simps)
  ultimately show ?thesis
    using low high by (simp add: rec)
qed

theorem button_click_total_witness:
  "(- 5 :: int) < 72 \<and> HVACButtons_on_click recorder (- 5) [] = [''off'']
   \<and> HVACButtons_on_click callbacks (- 5) (FordFGHVACApp_init 14 5)
       = on_off (FordFGHVACApp_init 14 5)
   \<and> (504 :: int) \<le> 600 \<and> HVACButtons_on_click recorder 600 [] = [''rear_def'']
   \<and> HVACButtons_on_click callbacks 600 (FordFGHVACApp_init 14 5)
       = on_rear_def (FordFGHVACApp_init 14 5)"
  using button_click_total [of "- 5" "FordFGHVACApp_init 14 5"]
    button_click_total [of 600 "FordFGHVACApp_init 14 5"]
  by simp

text \<open>
  C7. For every click x-coordinate the slider panel invokes zero or one callback: the
  thirds are cut at 193 and 387, each third has a decrement zone, a dead zone and an
  increment zone cut at 50/140, 240/340 and 430/530, and a click in a dead zone invokes
  no callback and leaves the application as it was.
\<close>

theorem slider_click_zero_or_one:
  "HVACSliders_on_click recorder x [] =
     (case slider_command x of None \<Rightarrow> [] | Some name \<Rightarrow> [name])
   \<and> length (HVACSliders_on_click recorder x []) \<le> 1
   \<and> HVACSliders_on_click callbacks x a =
       (case slider_command x of None \<Rightarrow> a | Some name \<Rightarrow> cb_get callbacks name a)
   \<and> (slider_zone x = Dead) = (slider_command x = None)
   \<and> (slider_zone x = Dead) = (HVACSliders_on_click recorder x [] = [])
   \<and> (slider_zone x = Dead) =
       (50 \<le> x \<and> x \<le> 140 \<or> 240 \<le> x \<and> x \<le> 340 \<or> 430 \<le> x \<and> x \<le> 530)"
proof -
  have dead: "(slider_zone x = Dead) =
       (50 \<le> x \<and> x \<le> 140 \<or> 240 \<le> x \<and> x \<le> 340 \<or> 430 \<le> x \<and> x \<le> 530)"
    by (auto simp add: slider_zone_def slider_third_def inner_breakpoints_def)
  have "HVACSliders_on_click recorder x [] =
          (case slider_command x of None \<Rightarrow> [] | Some name \<Rightarrow> [name])"
    by (simp add: HVACSliders_on_click_zone cb_get_recorder split: option.split)
  moreover have "HVACSliders_on_click callbacks x a =
          (case slider_command x of None \<Rightarrow> a | Some name \<Rightarrow> cb_get callbacks name a)"
    by (simp add: HVACSliders_on_click_zone split: option.split)
  moreover have "(slider_zone x = Dead) = (slider_command x = None)"
    by (simp add: slider_command_def split: zone.split prod.split)
  ultimately show ?thesis
    using dead by (simp split: option.split)
qed

section \<open>Commands that only log\<close>

text \<open>
  C9. Each of the commands \<open>off\<close>, \<open>recirc\<close>, \<open>hazard\<close> and \<open>air_dir\<close> prints exactly
  one line and changes nothing else: the state record keeps every field and no render is
  issued.
\<close>

theorem stateless_commands_log_only:
  "cb_get callbacks ''off'' a = a\<lparr>stdout := stdout a @ [[Str ''[CAN TX] OFF pressed'']]\<rparr>
   \<and> cb_get callbacks ''recirc'' a =
       a\<lparr>stdout := stdout a @ [[Str ''[CAN TX] Recirc pressed'']]\<rparr>
   \<and> cb_get callbacks ''hazard'' a = a\<lparr>stdout := stdout a @ [[Str ''[CAN] Hazard'']]\<rparr>
   \<and> cb_get callbacks ''air_dir'' a =
       a\<lparr>stdout := stdout a @ [[Str ''[CAN] Air direction'']]\<rparr>"
  by (simp add: cb_get_def callbacks_simps on_off_def on_recirc_def print_line_def)

section \<open>State invariants\<close>

lemma half_step_iff: "half_step v = (\<exists>k::int. v = of_int k / 2)"
proof
  assume "half_step v"
  then have e: "of_int \<lfloor>2 * v\<rfloor> = 2 * v" unfolding half_step_def .
  have "v = of_int \<lfloor>2 * v\<rfloor> / 2" unfolding e by simp
  then show "\<exists>k::int. v = of_int k / 2" ..
next
  assume "\<exists>k::int. v = of_int k / 2"
  then obtain k :: int where "v = of_int k / 2" ..
  then have "2 * v = of_int k" by simp
  then show "half_step v" unfolding half_step_def by (simp only: floor_of_int)
qed

lemma temp_ok_up: "temp_ok v \<Longrightarrow> v < 32 \<Longrightarrow> temp_ok (v + 1 / 2)"
proof -
  assume ok: "temp_ok v" and lt: "v < 32"
  then obtain k :: int where k: "v = of_int k / 2"
    by (auto simp: temp_ok_def half_step_iff)
  from lt k have "k < 64" by simp
  then have "k + 1 \<le> 64" by simp
  then have "(of_int (k + 1) :: rat) \<le> of_int 64" by (simp only: of_int_le_iff)
  then have le: "v + 1 / 2 \<le> 32" using k by simp
  have "v + 1 / 2 = of_int (k + 1) / 2" using k by (simp add: add_divide_distrib)
  then have "half_step (v + 1 / 2)" unfolding half_step_iff by blast
  with le ok show ?thesis by (simp add: temp_ok_def)
qed

lemma temp_ok_down: "temp_ok v \<Longrightarrow> 16 < v \<Longrightarrow> temp_ok (v - 1 / 2)"
proof -
  assume ok: "temp_ok v" and lt: "16 < v"
  then obtain k :: int where k: "v = of_int k / 2"
    by (auto simp: temp_ok_def half_step_iff)
  from lt k have "32 < k" by simp
  then have "32 \<le> k - 1" by simp
  then have "(of_int 32 :: rat) \<le> of_int (k - 1)" by (simp only: of_int_le_iff)
  then have le: "16 \<le> v - 1 / 2" using k by simp
  have "v - 1 / 2 = of_int (k - 1) / 2" using k by (simp add: diff_divide_distrib)
  then have "half_step (v - 1 / 2)" unfolding half_step_iff by blast
  with le ok show ?thesis by (simp add: temp_ok_def)
qed

lemma state_print_line [simp]: "state (print_line l a) = state a"
  by (simp add: print_line_def)

lemma state_refresh [simp]: "state (refresh a) = state a"
  by (simp add: refresh_def)

lemma state_ok_toggles:
  "state_ok (state a) \<Longrightarrow> state_ok (state (on_ac a))"
  "state_ok (state a) \<Longrightarrow> state_ok (state (on_auto a))"
  "state_ok (state a) \<Longrightarrow> state_ok (state (on_front_def a))"
  "state_ok (state a) \<Longrightarrow> state_ok (state (on_rear_def a))"
  "state_ok (state a) \<Longrightarrow> state_ok (state (on_off a))"
  "state_ok (state a) \<Longrightarrow> state_ok (state (on_recirc a))"
  "state_ok (state a) \<Longrightarrow> state_ok (state (update_clock h m a))"
  by (simp_all add: state_ok_def on_ac_def on_auto_def on_front_def_def on_rear_def_def
        on_off_def on_recirc_def update_clock_def Let_def)

lemma state_ok_fan:
  "state_ok (state a) \<Longrightarrow> state_ok (state (on_fan_up a))"
  "state_ok (state a) \<Longrightarrow> state_ok (state (on_fan_down a))"
  by (simp_all add: state_ok_def fan_ok_def on_fan_up_def on_fan_down_def Let_def)

lemma state_ok_temp:
  "state_ok (state a) \<Longrightarrow> state_ok (state (on_temp_up a))"
  "state_ok (state a) \<Longrightarrow> state_ok (state (on_temp_down a))"
  by (simp_all add: state_ok_def on_temp_up_def on_temp_down_def Let_def temp_ok_up temp_ok_down)

lemma callbacks_cases:
  assumes "callbacks name = Some f"
  shows "f = on_off \<or> f = on_recirc \<or> f = on_ac \<or> f = on_auto
         \<or> f = print_line [Str ''[CAN] Hazard''] \<or> f = on_front_def
         \<or> f = print_line [Str ''[CAN] Air direction''] \<or> f = on_rear_def
         \<or> f = on_fan_up \<or> f = on_fan_down \<or> f = on_temp_up \<or> f = on_temp_down"
proof -
  from assms have "(name, f) \<in> set
     [(''off'', on_off), (''recirc'', on_recirc), (''ac'', on_ac), (''auto'', on_auto),
      (''hazard'', print_line [Str ''[CAN] Hazard'']), (''front_def'', on_front_def),
      (''air_dir'', print_line [Str ''[CAN] Air direction'']), (''rear_def'', on_rear_def),
      (''fan_up'', on_fan_up), (''fan_down'', on_fan_down),
      (''pass_temp_up'', on_temp_up), (''pass_temp_down'', on_temp_down),
      (''drv_temp_up'', on_temp_up), (''drv_temp_down'', on_temp_down)]"
    unfolding callbacks_def by (rule map_of_SomeD)
  then show ?thesis
    by (simp only: set_simps insert_iff empty_iff prod.inject) blast
qed

lemma state_ok_cb_get:
  assumes "state_ok (state a)"
  shows "state_ok (state (cb_get callbacks name a))"
proof (cases "callbacks name")
  case None
  with assms show ?thesis by (simp add: cb_get_def)
next
  case (Some f)
  from callbacks_cases [OF Some] assms have "state_ok (state (f a))"
    by (elim disjE) (simp_all add: state_ok_toggles state_ok_fan state_ok_temp)
  with Some show ?thesis by (simp add: cb_get_def)
qed

lemma state_ok_step: "state_ok (state a) \<Longrightarrow> state_ok (state (step e a))"
proof (cases e)
  case (ButtonClick x)
  assume "state_ok (state a)"
  then show ?thesis
    by (simp add: ButtonClick HVACButtons_on_click_band state_ok_cb_get)
next
  case (SliderClick x)
  assume "state_ok (state a)"
  then show ?thesis
    by (simp add: SliderClick HVACSliders_on_click_zone state_ok_cb_get split: option.split)
next
  case (Tick h m)
  assume "state_ok (state a)"
  then show ?thesis by (simp add: Tick state_ok_toggles)
next
  case (Invoke name)
  assume "state_ok (state a)"
  then show ?thesis by (simp add: Invoke state_ok_cb_get)
qed

lemma state_ok_run: "state_ok (state a) \<Longrightarrow> state_ok (state (run es a))"
  by (induction es arbitrary: a) (simp_all add: state_ok_step)

lemma state_ok_default: "state_ok HVACState_default"
  by (simp add: state_ok_def temp_ok_def fan_ok_def half_step_def HVACState_default_def)

lemma state_ok_init: "state_ok (state (FordFGHVACApp_init h m))"
  using state_ok_default
  by (simp add: FordFGHVACApp_init_def update_clock_def state_ok_def HVACState_default_def)

text \<open>
  C1. In every state reachable from the constructed application by any sequence of
  events (clicks on either panel, clock ticks, commands invoked by name), \<open>set_temp\<close> is
  a multiple of 0.5 within 16 to 32 and \<open>fan_speed\<close> is within 0 to 8; and every event
  and every handler (temperature up and down, fan up and down, the four toggles, the
  clock update) preserves both invariants.
\<close>

theorem invariants_preserved:
  "state_ok (state (run es (FordFGHVACApp_init h m)))
   \<and> (state_ok (state a) \<longrightarrow>
        state_ok (state (step e a))
        \<and> state_ok (state (on_temp_up a)) \<and> state_ok (state (on_temp_down a))
        \<and> state_ok (state (on_fan_up a)) \<and> state_ok (state (on_fan_down a))
        \<and> state_ok (state (on_ac a)) \<and> state_ok (state (on_auto a))
        \<and> state_ok (state (on_front_def a)) \<and> state_ok (state (on_rear_def a))
        \<and> state_ok (state (update_clock h' m' a)))"
  by (simp add: state_ok_run state_ok_init state_ok_step state_ok_toggles state_ok_fan
        state_ok_temp)

theorem invariants_preserved_witness:
  "state_ok (state (FordFGHVACApp_init 14 5))
   \<and> state_ok (state (step (SliderClick 150) (FordFGHVACApp_init 14 5)))
   \<and> state_ok (state (on_temp_up (FordFGHVACApp_init 14 5)))
   \<and> state_ok (state (on_fan_down (FordFGHVACApp_init 14 5)))
   \<and> state_ok (state (update_clock 14 6 (FordFGHVACApp_init 14 5)))
   \<and> state_ok (state (run [SliderClick 150, ButtonClick 200, Tick 14 6, SliderClick 350]
                        (FordFGHVACApp_init 14 5)))"
  using invariants_preserved
    [of "[SliderClick 150, ButtonClick 200, Tick 14 6, SliderClick 350]" 14 5
        "FordFGHVACApp_init 14 5" "SliderClick 150" 14 6]
    state_ok_init [of 14 5]
  by simp

section \<open>Fan and temperature adjustment\<close>

text \<open>
  C2. With \<open>fan_speed\<close> within 0 to 8: fan-up at 8 and fan-down at 0 return the
  application unchanged (no line printed, no render); otherwise the handler changes
  \<open>fan_speed\<close> by exactly 1 and nothing else in the state, prints exactly one line and
  renders once; the result is always within 0 to 8.
\<close>

theorem fan_adjust:
  assumes "fan_ok (fan_speed (state a))"
  shows "(fan_speed (state a) = 8 \<longrightarrow> on_fan_up a = a)
     \<and> (fan_speed (state a) = 0 \<longrightarrow> on_fan_down a = a)
     \<and> (fan_speed (state a) \<noteq> 8 \<longrightarrow>
          state (on_fan_up a) = (state a)\<lparr>fan_speed := fan_speed (state a) + 1\<rparr>
          \<and> stdout (on_fan_up a) =
              stdout a @ [[Str (''[CAN TX] Fan: '' @ str_int (fan_speed (state a) + 1))]]
          \<and> frames (on_fan_up a) = frames a @ [draw (state (on_fan_up a))])
     \<and> (fan_speed (state a) \<noteq> 0 \<longrightarrow>
          state (on_fan_down a) = (state a)\<lparr>fan_speed := fan_speed (state a) - 1\<rparr>
          \<and> stdout (on_fan_down a) =
              stdout a @ [[Str (''[CAN TX] Fan: '' @ str_int (fan_speed (state a) - 1))]]
          \<and> frames (on_fan_down a) = frames a @ [draw (state (on_fan_down a))])
     \<and> fan_ok (fan_speed (state (on_fan_up a)))
     \<and> fan_ok (fan_speed (state (on_fan_down a)))"
  using assms
  by (simp add: fan_ok_def on_fan_up_def on_fan_down_def Let_def print_line_def refresh_def)

theorem fan_adjust_witness:
  "fan_ok (fan_speed (state (FordFGHVACApp_init 14 5)))
   \<and> fan_speed (state (FordFGHVACApp_init 14 5)) \<noteq> 8
   \<and> fan_speed (state (FordFGHVACApp_init 14 5)) \<noteq> 0
   \<and> fan_speed (state (on_fan_up (FordFGHVACApp_init 14 5))) = 6
   \<and> fan_speed (state (on_fan_down (FordFGHVACApp_init 14 5))) = 4
   \<and> fan_ok (fan_speed (state ((on_fan_up ^^ 3) (FordFGHVACApp_init 14 5))))
   \<and> fan_speed (state ((on_fan_up ^^ 3) (FordFGHVACApp_init 14 5))) = 8
   \<and> on_fan_up ((on_fan_up ^^ 3) (FordFGHVACApp_init 14 5))
       = (on_fan_up ^^ 3) (FordFGHVACApp_init 14 5)
   \<and> fan_ok (fan_speed (state ((on_fan_down ^^ 5) (FordFGHVACApp_init 14 5))))
   \<and> fan_speed (state ((on_fan_down ^^ 5) (FordFGHVACApp_init 14 5))) = 0
   \<and> on_fan_down ((on_fan_down ^^ 5) (FordFGHVACApp_init 14 5))
       = (on_fan_down ^^ 5) (FordFGHVACApp_init 14 5)"
proof -
  have f5: "fan_speed (state (FordFGHVACApp_init 14 5)) = 5"
    by (simp add: FordFGHVACApp_init_def update_clock_def refresh_def HVACState_default_def)
  have up: "fan_speed (state (on_fan_up b)) =
      (if fan_speed (state b) < 8 then fan_speed (state b) + 1 else fan_speed (state b))" for b
    by (simp add: on_fan_up_def Let_def print_line_def refresh_def)
  have down: "fan_speed (state (on_fan_down b)) =
      (if 0 < fan_speed (state b) then fan_speed (state b) - 1 else fan_speed (state b))" for b
    by (simp add: on_fan_down_def Let_def print_line_def refresh_def)
  have f8: "fan_speed (state ((on_fan_up ^^ 3) (FordFGHVACApp_init 14 5))) = 8"
    by (simp add: numeral_3_eq_3 up f5)
  have f0: "fan_speed (state ((on_fan_down ^^ 5) (FordFGHVACApp_init 14 5))) = 0"
    by (simp add: eval_nat_numeral down f5)
  show ?thesis
    using fan_adjust [of "FordFGHVACApp_init 14 5"]
      fan_adjust [of "(on_fan_up ^^ 3) (FordFGHVACApp_init 14 5)"]
      fan_adjust [of "(on_fan_down ^^ 5) (FordFGHVACApp_init 14 5)"]
    by (simp add: f5 f8 f0 fan_ok_def)
qed

lemma on_temp_up_at_max: "set_temp (state b) = 32 \<Longrightarrow> on_temp_up b = b"
  by (simp add: on_temp_up_def)

lemma on_temp_up_below:
  "set_temp (state b) < 32 \<Longrightarrow>
     state (on_temp_up b) = (state b)\<lparr>set_temp := set_temp (state b) + 1 / 2\<rparr>
     \<and> stdout (on_temp_up b) = stdout b @ [temp_line (set_temp (state b) + 1 / 2)]
     \<and> frames (on_temp_up b) = frames b @ [draw (state (on_temp_up b))]"
  by (simp add: on_temp_up_def Let_def print_line_def refresh_def)

lemma temp_up_iter:
  "set_temp (state a) = of_int k / 2 \<Longrightarrow> k \<le> 64 \<Longrightarrow>
     set_temp (state ((on_temp_up ^^ n) a)) = of_int (min 64 (k + int n)) / 2"
proof (induction n)
  case 0
  then show ?case by simp
next
  case (Suc n)
  let ?b = "(on_temp_up ^^ n) a"
  let ?j = "min 64 (k + int n)"
  from Suc have b: "set_temp (state ?b) = of_int ?j / 2" by simp
  show ?case
  proof (cases "?j < 64")
    case True
    then have "(of_int ?j :: rat) < of_int 64" by (simp only: of_int_less_iff)
    then have "set_temp (state ?b) < 32" using b by simp
    then have "set_temp (state (on_temp_up ?b)) = of_int ?j / 2 + 1 / 2"
      using b by (simp add: on_temp_up_below)
    also have "\<dots> = of_int (?j + 1) / 2" by (simp add: add_divide_distrib)
    also have "?j + 1 = min 64 (k + int (Suc n))" using True by simp
    finally show ?thesis by simp
  next
    case False
    then have j: "?j = 64" by simp
    then have "set_temp (state ?b) = 32" using b by simp
    then have "on_temp_up ?b = ?b" by (rule on_temp_up_at_max)
    moreover have "min 64 (k + int (Suc n)) = 64" using j by simp
    ultimately show ?thesis using b j by simp
  qed
qed

lemma temp_from_default:
  assumes "set_temp (state a) = 47 / 2"
  shows "set_temp (state ((on_temp_up ^^ n) a)) = of_int (min 64 (47 + int n)) / 2"
  using temp_up_iter [of a 47 n] assms by simp

lemma init_set_temp: "set_temp (state (FordFGHVACApp_init h m)) = 47 / 2"
  by (simp add: FordFGHVACApp_init_def update_clock_def refresh_def HVACState_default_def)

text \<open>
  C3, as the code has it. From \<open>set_temp = 23.5\<close> sixteen temp-up invocations reach
  31.5 and the seventeenth reaches 32.0: it starts from 31.5, changes the state, prints one
  line and renders once. The eighteenth invocation, from 32.0, is the no-op.
\<close>

theorem temp_up_seventeen:
  assumes "set_temp (state a) = 47 / 2"
  shows "set_temp (state ((on_temp_up ^^ 16) a)) = 63 / 2
     \<and> set_temp (state ((on_temp_up ^^ 17) a)) = 32
     \<and> stdout ((on_temp_up ^^ 17) a) = stdout ((on_temp_up ^^ 16) a) @ [temp_line 32]
     \<and> frames ((on_temp_up ^^ 17) a)
         = frames ((on_temp_up ^^ 16) a) @ [draw (state ((on_temp_up ^^ 17) a))]
     \<and> (on_temp_up ^^ 18) a = (on_temp_up ^^ 17) a"
proof -
  let ?b = "(on_temp_up ^^ 16) a"
  have t16: "set_temp (state ?b) = 63 / 2"
    using temp_from_default [OF assms, of 16] by simp
  have t17: "set_temp (state ((on_temp_up ^^ 17) a)) = 32"
    using temp_from_default [OF assms, of 17] by simp
  have s17: "(on_temp_up ^^ 17) a = on_temp_up ?b"
    by (simp add: eval_nat_numeral)
  have s18: "(on_temp_up ^^ 18) a = on_temp_up ((on_temp_up ^^ 17) a)"
    by (simp add: eval_nat_numeral)
  have "set_temp (state ?b) < 32" using t16 by simp
  from on_temp_up_below [OF this]
  have "stdout (on_temp_up ?b) = stdout ?b @ [temp_line 32]"
    and "frames (on_temp_up ?b) = frames ?b @ [draw (state (on_temp_up ?b))]"
    using t16 by simp_all
  moreover have "(on_temp_up ^^ 18) a = (on_temp_up ^^ 17) a"
    unfolding s18 using t17 by (rule on_temp_up_at_max)
  ultimately show ?thesis using t16 t17 by (simp add: s17)
qed

theorem temp_up_seventeen_witness:
  "set_temp (state (FordFGHVACApp_init 14 5)) = 47 / 2
   \<and> set_temp (state ((on_temp_up ^^ 16) (FordFGHVACApp_init 14 5))) = 63 / 2
   \<and> set_temp (state ((on_temp_up ^^ 17) (FordFGHVACApp_init 14 5))) = 32
   \<and> (on_temp_up ^^ 18) (FordFGHVACApp_init 14 5) = (on_temp_up ^^ 17) (FordFGHVACApp_init 14 5)"
  using temp_up_seventeen [of "FordFGHVACApp_init 14 5"]
  by (simp add: init_set_temp)

text \<open>
  The seventeenth invocation from the default is not a no-op and does not start from 32.0:
  before it the set temperature is 31.5, and it changes the application.
\<close>

theorem seventeenth_temp_up_not_noop:
  "set_temp (state ((on_temp_up ^^ 16) (FordFGHVACApp_init 14 5))) = 63 / 2
   \<and> on_temp_up ((on_temp_up ^^ 16) (FordFGHVACApp_init 14 5))
       \<noteq> (on_temp_up ^^ 16) (FordFGHVACApp_init 14 5)"
proof -
  let ?b = "(on_temp_up ^^ 16) (FordFGHVACApp_init 14 5)"
  have t16: "set_temp (state ?b) = 63 / 2"
    using temp_from_default [where a = "FordFGHVACApp_init 14 5" and n = 16, OF init_set_temp]
    by simp
  then have "set_temp (state ?b) < 32" by simp
  from on_temp_up_below [OF this]
  have "set_temp (state (on_temp_up ?b)) = 32" using t16 by simp
  with t16 have "set_temp (state (on_temp_up ?b)) \<noteq> set_temp (state ?b)" by simp
  then have "on_temp_up ?b \<noteq> ?b" by metis
  with t16 show ?thesis by simp
qed

section \<open>The seven-segment table\<close>

text \<open>
  C5. The pattern table is total: each of the digits, the minus sign and the blank has one
  fixed pattern of seven flags (the keys are distinct), the minus sign lights segment G
  only, the blank lights nothing, and every other character gets the all-off pattern,
  for which nothing is drawn.
\<close>

theorem patterns_total:
  "patterns_get (CHR ''0'') = (1,1,1,1,1,1,0)
   \<and> patterns_get (CHR ''1'') = (0,1,1,0,0,0,0)
   \<and> patterns_get (CHR ''2'') = (1,1,0,1,1,0,1)
   \<and> patterns_get (CHR ''3'') = (1,1,1,1,0,0,1)
   \<and> patterns_get (CHR ''4'') = (0,1,1,0,0,1,1)
   \<and> patterns_get (CHR ''5'') = (1,0,1,1,0,1,1)
   \<and> patterns_get (CHR ''6'') = (1,0,1,1,1,1,1)
   \<and> patterns_get (CHR ''7'') = (1,1,1,0,0,0,0)
   \<and> patterns_get (CHR ''8'') = (1,1,1,1,1,1,1)
   \<and> patterns_get (CHR ''9'') = (1,1,1,1,0,1,1)
   \<and> patterns_get (CHR ''-'') = (0,0,0,0,0,0,1)
   \<and> patterns_get (CHR '' '') = (0,0,0,0,0,0,0)
   \<and> distinct (map fst patterns)
   \<and> draw_7seg x y (CHR ''-'') ''large'' =
       [Polygon [x + 6, y + 20, x + 18, y + 20, x + 18, y + 24, x + 6, y + 24] True 1]
   \<and> draw_7seg x y (CHR '' '') sz = []
   \<and> (c \<notin> set ''0123456789- '' \<longrightarrow>
        patterns_get c = (0,0,0,0,0,0,0) \<and> draw_7seg x y c sz = [])"
proof -
  have minus: "draw_7seg x y (CHR ''-'') ''large'' =
       [Polygon [x + 6, y + 20, x + 18, y + 20, x + 18, y + 24, x + 6, y + 24] True 1]"
    by (simp add: draw_7seg_def patterns_get_def patterns_def seg_def)
  have tab: "patterns_get (CHR ''0'') = (1,1,1,1,1,1,0)
   \<and> patterns_get (CHR ''1'') = (0,1,1,0,0,0,0)
   \<and> patterns_get (CHR ''2'') = (1,1,0,1,1,0,1)
   \<and> patterns_get (CHR ''3'') = (1,1,1,1,0,0,1)
   \<and> patterns_get (CHR ''4'') = (0,1,1,0,0,1,1)
   \<and> patterns_get (CHR ''5'') = (1,0,1,1,0,1,1)
   \<and> patterns_get (CHR ''6'') = (1,0,1,1,1,1,1)
   \<and> patterns_get (CHR ''7'') = (1,1,1,0,0,0,0)
   \<and> patterns_get (CHR ''8'') = (1,1,1,1,1,1,1)
   \<and> patterns_get (CHR ''9'') = (1,1,1,1,0,1,1)
   \<and> patterns_get (CHR ''-'') = (0,0,0,0,0,0,1)
   \<and> patterns_get (CHR '' '') = (0,0,0,0,0,0,0)"
    by (simp add: patterns_get_def patterns_def)
  have dist: "distinct (map fst patterns)"
    by (simp add: patterns_def)
  have off: "draw_7seg x y d sz = []" if "patterns_get d = (0,0,0,0,0,0,0)" for d
    using that by (simp add: draw_7seg_def seg_def split: prod.split)
  have other: "patterns_get c = (0,0,0,0,0,0,0)" if "c \<notin> set ''0123456789- ''"
    using that by (simp add: patterns_get_def patterns_def)
  from tab dist minus off other show ?thesis by simp
qed

theorem patterns_total_witness:
  "CHR ''A'' \<notin> set ''0123456789- ''
   \<and> patterns_get (CHR ''A'') = (0,0,0,0,0,0,0)
   \<and> draw_7seg 455 28 (CHR ''A'') ''large'' = []"
  using patterns_total [of 455 28 "''large''" "CHR ''A''"]
  by simp

section \<open>The render as a whole\<close>

text \<open>
  The loop over the characters of the set temperature draws each character at the position
  reached by the pitches of the characters before it; with that, the whole render is the
  following sequence of items.
\<close>

lemma x_at_Cons: "x_at x (c # cs) (Suc i) = x_at (x + pitch c) cs i"
  by (simp add: x_at_def)

lemma x_at_0: "x_at x cs 0 = x"
  by (simp add: x_at_def)

lemma glyphs_Nil: "glyphs x y [] = []"
  by (simp add: glyphs_def)

lemma glyphs_Cons: "glyphs x y (c # cs) = glyph x y c @ glyphs (x + pitch c) y cs"
proof -
  have "[0..<length (c # cs)] = 0 # map Suc [0..<length cs]"
    by (simp add: upt_conv_Cons map_Suc_upt del: upt_Suc)
  then show ?thesis
    by (simp add: glyphs_def x_at_0 x_at_Cons comp_def del: upt_Suc)
qed

lemma draw_temp_chars_glyphs:
  "draw_temp_chars x y cs = (glyphs x y cs, x_at x cs (length cs))"
proof (induction cs arbitrary: x)
  case Nil
  show ?case by (simp add: glyphs_Nil x_at_0)
next
  case (Cons c cs)
  show ?case
    by (simp add: Cons.IH glyphs_Cons x_at_Cons glyph_def pitch_def)
qed

lemma draw_set_temp_glyphs:
  "draw_set_temp s =
     [Text 480 12 ''Set Temp'' (arial 10) West]
     @ glyphs 455 28 (format_04_1f (set_temp s))
     @ [Text (x_at 455 (format_04_1f (set_temp s)) (length (format_04_1f (set_temp s))) + 5)
          33 [CHR 0xB0] (arial_bold 14) West]"
  by (simp add: draw_set_temp_def draw_temp_chars_glyphs Let_def)

lemma draw_render:
  "draw s =
     draw_clock_ticks 70 68 52
     @ [Text 70 63 (time_str s) (''Consolas'', 18, True) Center]
     @ draw_car 70 96
     @ [Text 138 48 ''Auto'' (arial_bold 13) West]
     @ draw_front_defrost 200 55
     @ draw_airflow_person 295 60
     @ [Oval 370 45 382 57 True 1, Text 408 72 ''Rear'' (arial 9) Center]
     @ [Text 310 15 ''Outside'' (arial 10) West]
     @ seven_seg_string [365, 378, 394] 8 ''-12'' ''small''
     @ [Text 415 15 [CHR 0xB0, CHR ''C''] (arial 10) West]
     @ [Text 480 12 ''Set Temp'' (arial 10) West]
     @ glyphs 455 28 (format_04_1f (set_temp s))
     @ [Text (x_at 455 (format_04_1f (set_temp s)) (length (format_04_1f (set_temp s))) + 5)
          33 [CHR 0xB0] (arial_bold 14) West]
     @ draw_snowflake 462 95
     @ draw_fan_bar s
     @ [Line [15, 115, 565, 115] 1]
     @ [Text 250 130 ''Semi-Auto'' (arial 11) Center,
        Text 520 130 ''A/C Off'' (arial 11) Center]"
  by (simp add: draw_def draw_set_temp_glyphs draw_outside_temp_def draw_small_7seg_def
        seven_seg_string_def draw_bottom_labels_def)

lemma text_notin_7seg: "Text a b t f an \<notin> set (draw_7seg x y c sz)"
  by (simp add: draw_7seg_def seg_def split: prod.split)

lemma text_notin_glyphs: "Text a b t f an \<notin> set (glyphs x y cs)"
  by (simp add: glyphs_def glyph_def text_notin_7seg)

lemma text_notin_seven_seg_string: "Text a b t f an \<notin> set (seven_seg_string xs y cs sz)"
  by (auto simp add: seven_seg_string_def text_notin_7seg)

lemma ac_off_label_drawn: "Text 520 130 ''A/C Off'' (arial 11) Center \<in> set (draw s)"
  by (simp add: draw_render)

lemma ac_on_label_not_drawn: "Text 520 130 ''A/C On'' (arial 11) Center \<notin> set (draw s)"
  by (auto simp add: draw_render text_notin_glyphs text_notin_seven_seg_string
        draw_clock_ticks_def draw_car_def draw_front_defrost_def zigzag_def
        draw_airflow_person_def draw_snowflake_def draw_fan_bar_def arial_def arial_bold_def)

lemma minus_sign_drawn: "Polygon [369, 17, 373, 17, 373, 19, 369, 19] True 1 \<in> set (draw s)"
  by (simp add: draw_render seven_seg_string_def draw_7seg_def patterns_get_def patterns_def
        seg_def)

section \<open>The A/C toggle\<close>

lemma draw_ac_on_indep: "draw (s\<lparr>ac_on := b\<rparr>) = draw s"
  by (simp add: draw_def time_str_def draw_outside_temp_def draw_set_temp_def
        draw_fan_bar_def draw_bottom_labels_def)

lemma on_ac_effect:
  "state (on_ac a) = (state a)\<lparr>ac_on := \<not> ac_on (state a)\<rparr>
   \<and> stdout (on_ac a) = stdout a @ [[Str (''[CAN TX] A/C: '' @ on_off_str (\<not> ac_on (state a)))]]
   \<and> frames (on_ac a) = frames a @ [draw (state (on_ac a))]"
  by (simp add: on_ac_def Let_def print_line_def refresh_def)

lemma init_ac_on: "\<not> ac_on (state (FordFGHVACApp_init h m))"
  by (simp add: FordFGHVACApp_init_def update_clock_def refresh_def HVACState_default_def)

text \<open>
  C6, as the code has it. With A/C off, as in a fresh state, the \<open>ac\<close> command sets
  \<open>ac_on\<close>, prints exactly one line and renders once; the new render, the last frame,
  does not depend on \<open>ac_on\<close>: it equals the render of the state before, its bottom
  labels are the fixed texts \<open>Semi-Auto\<close> and \<open>A/C Off\<close>, it contains the label
  \<open>A/C Off\<close> and no label \<open>A/C On\<close>. A second invocation restores the original state
  record and prints the \<open>Off\<close> line.
\<close>

theorem ac_toggle:
  assumes "\<not> ac_on (state a)"
  shows "state (on_ac a) = (state a)\<lparr>ac_on := True\<rparr>
     \<and> stdout (on_ac a) = stdout a @ [[Str ''[CAN TX] A/C: On'']]
     \<and> frames (on_ac a) = frames a @ [draw (state (on_ac a))]
     \<and> draw (state (on_ac a)) = draw (state a)
     \<and> draw_bottom_labels (state (on_ac a)) =
         [Text 250 130 ''Semi-Auto'' (arial 11) Center,
          Text 520 130 ''A/C Off'' (arial 11) Center]
     \<and> state (on_ac (on_ac a)) = state a
     \<and> stdout (on_ac (on_ac a)) =
         stdout a @ [[Str ''[CAN TX] A/C: On''], [Str ''[CAN TX] A/C: Off'']]
     \<and> last (frames (on_ac a)) = draw (state (on_ac a))
     \<and> Text 520 130 ''A/C Off'' (arial 11) Center \<in> set (last (frames (on_ac a)))
     \<and> Text 520 130 ''A/C On'' (arial 11) Center \<notin> set (last (frames (on_ac a)))
     \<and> (\<exists>items. draw (state (on_ac a)) =
           items @ [Text 250 130 ''Semi-Auto'' (arial 11) Center,
                    Text 520 130 ''A/C Off'' (arial 11) Center])"
proof -
  have s1: "state (on_ac a) = (state a)\<lparr>ac_on := True\<rparr>"
    using assms on_ac_effect [of a] by simp
  have o1: "stdout (on_ac a) = stdout a @ [[Str ''[CAN TX] A/C: On'']]"
    using assms on_ac_effect [of a] by (simp add: on_off_str_def)
  have f1: "frames (on_ac a) = frames a @ [draw (state (on_ac a))]"
    using on_ac_effect [of a] by simp
  have d: "draw (state (on_ac a)) = draw (state a)"
    unfolding s1 by (rule draw_ac_on_indep)
  have l: "draw_bottom_labels (state (on_ac a)) =
         [Text 250 130 ''Semi-Auto'' (arial 11) Center,
          Text 520 130 ''A/C Off'' (arial 11) Center]"
    by (simp add: draw_bottom_labels_def)
  have s2: "state (on_ac (on_ac a)) = state a"
    using assms on_ac_effect [of "on_ac a"] s1 by simp
  have o2: "stdout (on_ac (on_ac a)) =
         stdout a @ [[Str ''[CAN TX] A/C: On''], [Str ''[CAN TX] A/C: Off'']]"
    using on_ac_effect [of "on_ac a"] s1 o1 by (simp add: on_off_str_def)
  have lf: "last (frames (on_ac a)) = draw (state (on_ac a))"
    by (simp add: f1)
  have off: "Text 520 130 ''A/C Off'' (arial 11) Center \<in> set (last (frames (on_ac a)))"
    unfolding lf by (rule ac_off_label_drawn)
  have on: "Text 520 130 ''A/C On'' (arial 11) Center \<notin> set (last (frames (on_ac a)))"
    unfolding lf by (rule ac_on_label_not_drawn)
  have tail: "\<exists>items. draw (state (on_ac a)) =
           items @ [Text 250 130 ''Semi-Auto'' (arial 11) Center,
                    Text 520 130 ''A/C Off'' (arial 11) Center]"
    by (subst draw_render) (simp only: append_assoc [symmetric], rule exI, rule refl)
  from s1 o1 f1 d l s2 o2 lf off on tail show ?thesis by blast
qed

theorem ac_toggle_witness:
  "\<not> ac_on (state (FordFGHVACApp_init 14 5))
   \<and> ac_on (state (on_ac (FordFGHVACApp_init 14 5)))
   \<and> stdout (on_ac (FordFGHVACApp_init 14 5)) = [[Str ''[CAN TX] A/C: On'']]
   \<and> state (on_ac (on_ac (FordFGHVACApp_init 14 5))) = state (FordFGHVACApp_init 14 5)
   \<and> Text 520 130 ''A/C Off'' (arial 11) Center
        \<in> set (last (frames (on_ac (FordFGHVACApp_init 14 5))))"
proof -
  let ?a = "FordFGHVACApp_init 14 5"
  note th = ac_toggle [OF init_ac_on [of 14 5]]
  have e: "stdout ?a = []"
    by (simp add: FordFGHVACApp_init_def update_clock_def refresh_def)
  have "ac_on (state (on_ac ?a))"
    using th [THEN conjunct1] by simp
  moreover have "stdout (on_ac ?a) = [[Str ''[CAN TX] A/C: On'']]"
    using th [THEN conjunct2, THEN conjunct1] e by simp
  moreover note th [THEN conjunct2, THEN conjunct2, THEN conjunct2, THEN conjunct2,
      THEN conjunct2, THEN conjunct1]
  moreover note th [THEN conjunct2, THEN conjunct2, THEN conjunct2, THEN conjunct2,
      THEN conjunct2, THEN conjunct2, THEN conjunct2, THEN conjunct2, THEN conjunct1]
  ultimately show ?thesis
    using init_ac_on [of 14 5] by blast
qed

text \<open>
  After the toggle from the constructed application A/C is on, yet the new render, which
  equals the one before the toggle, still contains the bottom label \<open>A/C Off\<close> and no
  label \<open>A/C On\<close>.
\<close>

theorem ac_label_not_updated:
  "ac_on (state (on_ac (FordFGHVACApp_init 14 5)))
   \<and> draw_bottom_labels (state (on_ac (FordFGHVACApp_init 14 5))) =
       [Text 250 130 ''Semi-Auto'' (arial 11) Center,
        Text 520 130 ''A/C Off'' (arial 11) Center]
   \<and> last (frames (on_ac (FordFGHVACApp_init 14 5))) = last (frames (FordFGHVACApp_init 14 5))
   \<and> Text 520 130 ''A/C Off'' (arial 11) Center
        \<in> set (last (frames (on_ac (FordFGHVACApp_init 14 5))))
   \<and> Text 520 130 ''A/C On'' (arial 11) Center
        \<notin> set (last (frames (on_ac (FordFGHVACApp_init 14 5))))"
proof -
  let ?a = "FordFGHVACApp_init 14 5"
  have s1: "state (on_ac ?a) = (state ?a)\<lparr>ac_on := True\<rparr>"
    using init_ac_on [of 14 5] on_ac_effect [of ?a] by simp
  have "last (frames ?a) = draw (state ?a)"
    by (simp add: FordFGHVACApp_init_def update_clock_def refresh_def)
  moreover have lf: "last (frames (on_ac ?a)) = draw (state (on_ac ?a))"
    using on_ac_effect [of ?a] by simp
  moreover have "draw (state (on_ac ?a)) = draw (state ?a)"
    unfolding s1 by (rule draw_ac_on_indep)
  moreover have "Text 520 130 ''A/C Off'' (arial 11) Center \<in> set (last (frames (on_ac ?a)))"
    unfolding lf by (rule ac_off_label_drawn)
  moreover have "Text 520 130 ''A/C On'' (arial 11) Center \<notin> set (last (frames (on_ac ?a)))"
    unfolding lf by (rule ac_on_label_not_drawn)
  ultimately show ?thesis
    using s1 by (simp add: draw_bottom_labels_def)
qed

section \<open>The temperature read-outs\<close>

lemma digits_one: "n < 10 \<Longrightarrow> digits n = [''0123456789'' ! n]"
  by (simp add: digits.simps)

lemma digits_two:
  "10 \<le> n \<Longrightarrow> n < 100 \<Longrightarrow> digits n = [''0123456789'' ! (n div 10), ''0123456789'' ! (n mod 10)]"
  by (subst digits.simps) (simp add: digits_one)

lemma round_half_even_of_int: "round_half_even (of_int n) = n"
  by (simp add: round_half_even_def)

lemma format_temp_ok:
  assumes "temp_ok v"
  shows "format_04_1f v =
           digits (nat \<lfloor>v\<rfloor>) @ ''.'' @ (if v = of_int \<lfloor>v\<rfloor> then ''0'' else ''5'')
         \<and> length (digits (nat \<lfloor>v\<rfloor>)) = 2"
proof -
  from assms obtain k :: int where k: "v = of_int k / 2"
    by (auto simp: temp_ok_def half_step_iff)
  from assms k have "(of_int 32 :: rat) \<le> of_int k" "(of_int k :: rat) \<le> of_int 64"
    by (simp_all add: temp_ok_def)
  then have kb: "32 \<le> k" "k \<le> 64" by (simp_all only: of_int_le_iff)
  have "\<lfloor>(of_int k :: rat) / of_int 2\<rfloor> = k div 2"
    by (rule floor_divide_of_int_eq)
  then have fl: "\<lfloor>v\<rfloor> = k div 2"
    unfolding k by simp
  have ten: "\<bar>v\<bar> * 10 = of_int (5 * k)"
    using kb k by simp
  have n: "nat (round_half_even (\<bar>v\<bar> * 10)) = nat (5 * k)"
    unfolding ten round_half_even_of_int ..
  have d10: "nat (5 * k) div 10 = nat (k div 2)"
    using kb by (simp add: nat_div_distrib)
  have "(5 * k) mod 10 = (if even k then 0 else 5)"
    by presburger
  moreover have "nat (5 * k) mod nat 10 = nat ((5 * k) mod 10)"
    using kb by (intro nat_mod_distrib [symmetric]) simp_all
  ultimately have m10: "nat (5 * k) mod 10 = (if even k then 0 else 5)"
    by simp
  have whole: "(v = of_int (k div 2)) = even k"
  proof -
    have "(v = of_int (k div 2)) = ((of_int k :: rat) = of_int (2 * (k div 2)))"
      unfolding k by (simp add: field_simps)
    also have "\<dots> = (k = 2 * (k div 2))" by (simp only: of_int_eq_iff)
    also have "\<dots> = even k" by presburger
    finally show ?thesis .
  qed
  have two: "10 \<le> nat (k div 2)" "nat (k div 2) < 100"
    using kb by simp_all
  have len: "length (digits (nat (k div 2))) = 2"
    by (simp add: digits_two [OF two])
  have "format_04_1f v = digits (nat (k div 2)) @ ''.'' @ (if even k then ''0'' else ''5'')"
    unfolding format_04_1f_def n Let_def d10 m10
    using kb k len by (simp add: zero_pad_def sign_str_def digits_one)
  with len show ?thesis unfolding fl whole by simp
qed


lemma outside_temp_handlers:
  "outside_temp (state (on_off a)) = outside_temp (state a)"
  "outside_temp (state (on_recirc a)) = outside_temp (state a)"
  "outside_temp (state (on_ac a)) = outside_temp (state a)"
  "outside_temp (state (on_auto a)) = outside_temp (state a)"
  "outside_temp (state (on_front_def a)) = outside_temp (state a)"
  "outside_temp (state (on_rear_def a)) = outside_temp (state a)"
  "outside_temp (state (on_fan_up a)) = outside_temp (state a)"
  "outside_temp (state (on_fan_down a)) = outside_temp (state a)"
  "outside_temp (state (on_temp_up a)) = outside_temp (state a)"
  "outside_temp (state (on_temp_down a)) = outside_temp (state a)"
  "outside_temp (state (update_clock h m a)) = outside_temp (state a)"
  by (simp_all add: on_off_def on_recirc_def on_ac_def on_auto_def on_front_def_def
        on_rear_def_def on_fan_up_def on_fan_down_def on_temp_up_def on_temp_down_def
        update_clock_def Let_def)

lemma outside_temp_cb_get:
  "outside_temp (state (cb_get callbacks name a)) = outside_temp (state a)"
proof (cases "callbacks name")
  case None
  then show ?thesis by (simp add: cb_get_def)
next
  case (Some f)
  from callbacks_cases [OF Some] have "outside_temp (state (f a)) = outside_temp (state a)"
    by (elim disjE) (simp_all add: outside_temp_handlers)
  with Some show ?thesis by (simp add: cb_get_def)
qed

lemma outside_temp_step: "outside_temp (state (step e a)) = outside_temp (state a)"
  by (cases e)
    (simp_all add: HVACButtons_on_click_band HVACSliders_on_click_zone outside_temp_cb_get
       outside_temp_handlers split: option.split)

lemma outside_temp_run: "outside_temp (state (run es a)) = outside_temp (state a)"
  by (induction es arbitrary: a) (simp_all add: outside_temp_step)

lemma outside_temp_init: "outside_temp (state (FordFGHVACApp_init h m)) = - 12"
  by (simp add: FordFGHVACApp_init_def update_clock_def refresh_def HVACState_default_def)

lemma glyphs_four:
  "c0 \<noteq> CHR ''.'' \<Longrightarrow> c1 \<noteq> CHR ''.'' \<Longrightarrow> c3 \<noteq> CHR ''.'' \<Longrightarrow>
   glyphs x y [c0, c1, CHR ''.'', c3] =
     draw_7seg x y c0 ''large'' @ draw_7seg (x + 32) y c1 ''large''
     @ [Oval (x + 64) (y + 42) (x + 70) (y + 48) True 1]
     @ draw_7seg (x + 74) y c3 ''large''
   \<and> x_at x [c0, c1, CHR ''.'', c3] (length [c0, c1, CHR ''.'', c3]) = x + 106"
  by (simp add: glyphs_Cons glyphs_Nil glyph_def pitch_def x_at_def add.commute)

lemma digit_char_not_dot: "n < 10 \<Longrightarrow> ''0123456789'' ! n \<noteq> CHR ''.''"
proof -
  assume "n < 10"
  then have "n \<in> {0, 1, 2, 3, 4, 5, 6, 7, 8, 9}" by auto
  then show ?thesis by (elim insertE emptyE) simp_all
qed

lemma temp_ok_default: "temp_ok (set_temp HVACState_default)"
  by (simp add: temp_ok_def half_step_def HVACState_default_def)

text \<open>
  C8, as the code has it. For every state the render is the sequence of items below, a
  function of the state alone. In it the outside temperature is the fixed characters
  \<open>-\<close>, \<open>1\<close>, \<open>2\<close> passed through the small seven-segment renderer at x = 365, 378,
  394, whatever \<open>outside_temp\<close> holds; this is the formatting of the default \<open>-12\<close>,
  which is the value of the field in every reachable state. The set temperature is
  \<open>set_temp\<close> formatted by \<open>04.1f\<close>: each character at the position reached by the
  pitches of the characters before it (32, or 10 for the point), the point as a filled
  circle and every other character through the large seven-segment renderer. For a set
  temperature satisfying the invariant the string is two digits, the point and \<open>0\<close> or
  \<open>5\<close>, and the render contains them drawn at x = 455, 487, 519 and 529, the degree sign
  at 566.
\<close>

theorem display_temperatures:
  "draw s =
     draw_clock_ticks 70 68 52
     @ [Text 70 63 (time_str s) (''Consolas'', 18, True) Center]
     @ draw_car 70 96
     @ [Text 138 48 ''Auto'' (arial_bold 13) West]
     @ draw_front_defrost 200 55
     @ draw_airflow_person 295 60
     @ [Oval 370 45 382 57 True 1, Text 408 72 ''Rear'' (arial 9) Center]
     @ [Text 310 15 ''Outside'' (arial 10) West]
     @ seven_seg_string [365, 378, 394] 8 ''-12'' ''small''
     @ [Text 415 15 [CHR 0xB0, CHR ''C''] (arial 10) West]
     @ [Text 480 12 ''Set Temp'' (arial 10) West]
     @ glyphs 455 28 (format_04_1f (set_temp s))
     @ [Text (x_at 455 (format_04_1f (set_temp s)) (length (format_04_1f (set_temp s))) + 5)
          33 [CHR 0xB0] (arial_bold 14) West]
     @ draw_snowflake 462 95
     @ draw_fan_bar s
     @ [Line [15, 115, 565, 115] 1]
     @ [Text 250 130 ''Semi-Auto'' (arial 11) Center,
        Text 520 130 ''A/C Off'' (arial 11) Center]
   \<and> draw_outside_temp s =
      [Text 310 15 ''Outside'' (arial 10) West]
      @ seven_seg_string [365, 378, 394] 8 ''-12'' ''small''
      @ [Text 415 15 [CHR 0xB0, CHR ''C''] (arial 10) West]
   \<and> signed_two_digit (outside_temp HVACState_default) = ''-12''
   \<and> outside_temp (state (run es (FordFGHVACApp_init h m))) = - 12
   \<and> draw_set_temp s =
      [Text 480 12 ''Set Temp'' (arial 10) West]
      @ glyphs 455 28 (format_04_1f (set_temp s))
      @ [Text (x_at 455 (format_04_1f (set_temp s)) (length (format_04_1f (set_temp s))) + 5)
           33 [CHR 0xB0] (arial_bold 14) West]
   \<and> (temp_ok (set_temp s) \<longrightarrow>
        format_04_1f (set_temp s) =
          digits (nat \<lfloor>set_temp s\<rfloor>) @ ''.''
          @ (if set_temp s = of_int \<lfloor>set_temp s\<rfloor> then ''0'' else ''5'')
        \<and> length (digits (nat \<lfloor>set_temp s\<rfloor>)) = 2
        \<and> draw_set_temp s =
          [Text 480 12 ''Set Temp'' (arial 10) West]
          @ draw_7seg 455 28 (digits (nat \<lfloor>set_temp s\<rfloor>) ! 0) ''large''
          @ draw_7seg 487 28 (digits (nat \<lfloor>set_temp s\<rfloor>) ! 1) ''large''
          @ [Oval 519 70 525 76 True 1]
          @ draw_7seg 529 28
              (if set_temp s = of_int \<lfloor>set_temp s\<rfloor> then CHR ''0'' else CHR ''5'') ''large''
          @ [Text 566 33 [CHR 0xB0] (arial_bold 14) West]
        \<and> (\<exists>before after. draw s =
              before
              @ [Text 480 12 ''Set Temp'' (arial 10) West]
              @ draw_7seg 455 28 (digits (nat \<lfloor>set_temp s\<rfloor>) ! 0) ''large''
              @ draw_7seg 487 28 (digits (nat \<lfloor>set_temp s\<rfloor>) ! 1) ''large''
              @ [Oval 519 70 525 76 True 1]
              @ draw_7seg 529 28
                  (if set_temp s = of_int \<lfloor>set_temp s\<rfloor> then CHR ''0'' else CHR ''5'')
                  ''large''
              @ [Text 566 33 [CHR 0xB0] (arial_bold 14) West]
              @ after))"
proof -
  have out: "draw_outside_temp s =
      [Text 310 15 ''Outside'' (arial 10) West]
      @ seven_seg_string [365, 378, 394] 8 ''-12'' ''small''
      @ [Text 415 15 [CHR 0xB0, CHR ''C''] (arial 10) West]"
    by (simp add: draw_outside_temp_def seven_seg_string_def draw_small_7seg_def)
  have dflt: "signed_two_digit (outside_temp HVACState_default) = ''-12''"
    by (simp add: signed_two_digit_def HVACState_default_def zero_pad_def digits_two)
  have reach: "outside_temp (state (run es (FordFGHVACApp_init h m))) = - 12"
    by (simp add: outside_temp_run outside_temp_init)
  have ok: "format_04_1f (set_temp s) =
          digits (nat \<lfloor>set_temp s\<rfloor>) @ ''.''
          @ (if set_temp s = of_int \<lfloor>set_temp s\<rfloor> then ''0'' else ''5'')
        \<and> length (digits (nat \<lfloor>set_temp s\<rfloor>)) = 2
        \<and> draw_set_temp s =
          [Text 480 12 ''Set Temp'' (arial 10) West]
          @ draw_7seg 455 28 (digits (nat \<lfloor>set_temp s\<rfloor>) ! 0) ''large''
          @ draw_7seg 487 28 (digits (nat \<lfloor>set_temp s\<rfloor>) ! 1) ''large''
          @ [Oval 519 70 525 76 True 1]
          @ draw_7seg 529 28
              (if set_temp s = of_int \<lfloor>set_temp s\<rfloor> then CHR ''0'' else CHR ''5'') ''large''
          @ [Text 566 33 [CHR 0xB0] (arial_bold 14) West]
        \<and> (\<exists>before after. draw s =
              before
              @ [Text 480 12 ''Set Temp'' (arial 10) West]
              @ draw_7seg 455 28 (digits (nat \<lfloor>set_temp s\<rfloor>) ! 0) ''large''
              @ draw_7seg 487 28 (digits (nat \<lfloor>set_temp s\<rfloor>) ! 1) ''large''
              @ [Oval 519 70 525 76 True 1]
              @ draw_7seg 529 28
                  (if set_temp s = of_int \<lfloor>set_temp s\<rfloor> then CHR ''0'' else CHR ''5'')
                  ''large''
              @ [Text 566 33 [CHR 0xB0] (arial_bold 14) West]
              @ after)"
    if t: "temp_ok (set_temp s)"
  proof -
    let ?m = "nat \<lfloor>set_temp s\<rfloor>"
    define c0 where "c0 = digits ?m ! 0"
    define c1 where "c1 = digits ?m ! 1"
    define c3 where "c3 = (if set_temp s = of_int \<lfloor>set_temp s\<rfloor> then CHR ''0'' else CHR ''5'')"
    from t have "16 \<le> set_temp s" "set_temp s \<le> 32" by (simp_all add: temp_ok_def)
    then have "16 \<le> \<lfloor>set_temp s\<rfloor>" "\<lfloor>set_temp s\<rfloor> \<le> 32"
      by linarith+
    then have m: "10 \<le> ?m" "?m < 100" by linarith+
    have dm: "digits ?m = [''0123456789'' ! (?m div 10), ''0123456789'' ! (?m mod 10)]"
      by (rule digits_two [OF m])
    have d0: "c0 = ''0123456789'' ! (?m div 10)"
      unfolding c0_def dm by (simp only: nth_Cons_0)
    have d1: "c1 = ''0123456789'' ! (?m mod 10)"
      unfolding c1_def dm by (simp only: One_nat_def nth_Cons_Suc nth_Cons_0)
    have lt: "?m div 10 < 10" "?m mod 10 < 10"
      using m by simp_all
    have nd: "c0 \<noteq> CHR ''.''" "c1 \<noteq> CHR ''.''"
      unfolding d0 d1
      by (rule digit_char_not_dot [OF lt(1)]) (rule digit_char_not_dot [OF lt(2)])
    have c: "c3 \<noteq> CHR ''.''" by (simp add: c3_def)
    have "digits ?m = [c0, c1]"
      unfolding d0 d1 by (rule dm)
    moreover have "(if set_temp s = of_int \<lfloor>set_temp s\<rfloor> then ''0'' else ''5'') = [c3]"
      by (simp add: c3_def)
    ultimately have f: "format_04_1f (set_temp s) = [c0, c1, CHR ''.'', c3]"
      using format_temp_ok [OF t] by simp
    have sect: "draw_set_temp s =
          [Text 480 12 ''Set Temp'' (arial 10) West]
          @ draw_7seg 455 28 c0 ''large''
          @ draw_7seg 487 28 c1 ''large''
          @ [Oval 519 70 525 76 True 1]
          @ draw_7seg 529 28 c3 ''large''
          @ [Text 566 33 [CHR 0xB0] (arial_bold 14) West]"
      unfolding draw_set_temp_glyphs f using glyphs_four [OF nd c, of 455 28] by simp
    have "draw s =
          (draw_clock_ticks 70 68 52
           @ [Text 70 63 (time_str s) (''Consolas'', 18, True) Center]
           @ draw_car 70 96
           @ [Text 138 48 ''Auto'' (arial_bold 13) West]
           @ draw_front_defrost 200 55
           @ draw_airflow_person 295 60
           @ [Oval 370 45 382 57 True 1, Text 408 72 ''Rear'' (arial 9) Center]
           @ draw_outside_temp s)
          @ [Text 480 12 ''Set Temp'' (arial 10) West]
          @ draw_7seg 455 28 c0 ''large''
          @ draw_7seg 487 28 c1 ''large''
          @ [Oval 519 70 525 76 True 1]
          @ draw_7seg 529 28 c3 ''large''
          @ [Text 566 33 [CHR 0xB0] (arial_bold 14) West]
          @ (draw_snowflake 462 95 @ draw_fan_bar s @ [Line [15, 115, 565, 115] 1]
             @ draw_bottom_labels s)"
      by (simp add: draw_def sect)
    then have "\<exists>before after. draw s =
          before
          @ [Text 480 12 ''Set Temp'' (arial 10) West]
          @ draw_7seg 455 28 c0 ''large''
          @ draw_7seg 487 28 c1 ''large''
          @ [Oval 519 70 525 76 True 1]
          @ draw_7seg 529 28 c3 ''large''
          @ [Text 566 33 [CHR 0xB0] (arial_bold 14) West]
          @ after"
      by blast
    from sect [unfolded c0_def c1_def c3_def] this [unfolded c0_def c1_def c3_def]
      format_temp_ok [OF t]
    show ?thesis by blast
  qed
  from draw_render [of s] out dflt reach draw_set_temp_glyphs [of s] ok show ?thesis by blast
qed

theorem display_temperatures_witness:
  "temp_ok (set_temp HVACState_default)
   \<and> format_04_1f (set_temp HVACState_default) = ''23.5''
   \<and> draw_set_temp HVACState_default =
       [Text 480 12 ''Set Temp'' (arial 10) West]
       @ draw_7seg 455 28 (CHR ''2'') ''large''
       @ draw_7seg 487 28 (CHR ''3'') ''large''
       @ [Oval 519 70 525 76 True 1]
       @ draw_7seg 529 28 (CHR ''5'') ''large''
       @ [Text 566 33 [CHR 0xB0] (arial_bold 14) West]
   \<and> Polygon [460, 28, 474, 28, 472, 33, 462, 33] True 1 \<in> set (draw HVACState_default)
   \<and> Oval 519 70 525 76 True 1 \<in> set (draw HVACState_default)"
proof -
  have "\<lfloor>47 / 2 :: rat\<rfloor> = 23"
    by linarith
  then have fl: "\<lfloor>set_temp HVACState_default\<rfloor> = 23"
    by (simp add: HVACState_default_def)
  have frac: "set_temp HVACState_default \<noteq> 23"
    by (simp add: HVACState_default_def)
  have d: "digits 23 = ''23''"
    by (simp add: digits_two)
  note ok = display_temperatures [of HVACState_default "[]" 14 5, THEN conjunct2,
      THEN conjunct2, THEN conjunct2, THEN conjunct2, THEN conjunct2, THEN mp,
      OF temp_ok_default]
  have f: "format_04_1f (set_temp HVACState_default) = ''23.5''"
    using ok [THEN conjunct1] by (simp add: fl frac d)
  have g: "draw_set_temp HVACState_default =
       [Text 480 12 ''Set Temp'' (arial 10) West]
       @ draw_7seg 455 28 (CHR ''2'') ''large''
       @ draw_7seg 487 28 (CHR ''3'') ''large''
       @ [Oval 519 70 525 76 True 1]
       @ draw_7seg 529 28 (CHR ''5'') ''large''
       @ [Text 566 33 [CHR 0xB0] (arial_bold 14) West]"
    using ok [THEN conjunct2, THEN conjunct2, THEN conjunct1] by (simp add: fl frac d)
  from ok [THEN conjunct2, THEN conjunct2, THEN conjunct2]
  obtain before after where dr: "draw HVACState_default =
       before
       @ [Text 480 12 ''Set Temp'' (arial 10) West]
       @ draw_7seg 455 28 (CHR ''2'') ''large''
       @ draw_7seg 487 28 (CHR ''3'') ''large''
       @ [Oval 519 70 525 76 True 1]
       @ draw_7seg 529 28 (CHR ''5'') ''large''
       @ [Text 566 33 [CHR 0xB0] (arial_bold 14) West]
       @ after"
    by (auto simp add: fl frac d)
  have "Polygon [460, 28, 474, 28, 472, 33, 462, 33] True 1
          \<in> set (draw_7seg 455 28 (CHR ''2'') ''large'')"
    by (simp add: draw_7seg_def patterns_get_def patterns_def seg_def)
  then have seg_a: "Polygon [460, 28, 474, 28, 472, 33, 462, 33] True 1
          \<in> set (draw HVACState_default)"
    unfolding dr by simp
  have circle: "Oval 519 70 525 76 True 1 \<in> set (draw HVACState_default)"
    unfolding dr by simp
  from temp_ok_default f g seg_a circle show ?thesis by blast
qed

text \<open>
  With \<open>outside_temp = 5\<close> the outside read-out is not the rendering of the formatted
  field: the whole render equals that of the default state and contains the middle bar of
  the minus sign. And the decimal point of the set temperature does not go through the
  seven-segment renderer, which would draw nothing for it: the render contains the filled
  circle.
\<close>

theorem outside_temp_not_from_state:
  "draw_outside_temp (HVACState_default\<lparr>outside_temp := 5\<rparr>) \<noteq>
      [Text 310 15 ''Outside'' (arial 10) West]
      @ seven_seg_string [365, 378, 394] 8
          (signed_two_digit (outside_temp (HVACState_default\<lparr>outside_temp := 5\<rparr>))) ''small''
      @ [Text 415 15 [CHR 0xB0, CHR ''C''] (arial 10) West]
   \<and> signed_two_digit (outside_temp (HVACState_default\<lparr>outside_temp := 5\<rparr>)) = '' 05''
   \<and> draw (HVACState_default\<lparr>outside_temp := 5\<rparr>) = draw HVACState_default
   \<and> draw_7seg 519 28 (CHR ''.'') ''large'' = []
   \<and> Oval 519 70 525 76 True 1 \<in> set (draw_set_temp HVACState_default)
   \<and> Polygon [369, 17, 373, 17, 373, 19, 369, 19] True 1
        \<in> set (draw (HVACState_default\<lparr>outside_temp := 5\<rparr>))
   \<and> seven_seg_string [365, 378, 394] 8 '' 05'' ''small'' \<noteq>
        seven_seg_string [365, 378, 394] 8 ''-12'' ''small''
   \<and> Oval 519 70 525 76 True 1 \<in> set (draw HVACState_default)"
proof -
  have "format_04_1f (47 / 2) = ''23.5''"
    by code_simp
  then have f: "format_04_1f (set_temp HVACState_default) = ''23.5''"
    by (simp add: HVACState_default_def)
  then have circle: "Oval 519 70 525 76 True 1 \<in> set (draw_set_temp HVACState_default)"
    by (simp add: draw_set_temp_glyphs glyphs_Cons glyphs_Nil glyph_def pitch_def)
  have circle': "Oval 519 70 525 76 True 1 \<in> set (draw HVACState_default)"
    using f by (simp add: draw_render glyphs_Cons glyphs_Nil glyph_def pitch_def)
  have dot: "draw_7seg 519 28 (CHR ''.'') ''large'' = []"
    by (simp add: draw_7seg_def patterns_get_def patterns_def seg_def)
  have fmt: "signed_two_digit (outside_temp (HVACState_default\<lparr>outside_temp := 5\<rparr>)) = '' 05''"
    by (simp add: signed_two_digit_def zero_pad_def digits_one)
  have same: "draw (HVACState_default\<lparr>outside_temp := 5\<rparr>) = draw HVACState_default"
    by (simp add: draw_def time_str_def draw_outside_temp_def draw_set_temp_def
        draw_fan_bar_def draw_bottom_labels_def)
  have l1: "length (draw_outside_temp (HVACState_default\<lparr>outside_temp := 5\<rparr>)) = 10"
    by (simp add: draw_outside_temp_def draw_small_7seg_def draw_7seg_def patterns_get_def
        patterns_def seg_def)
  have l2: "length ([Text 310 15 ''Outside'' (arial 10) West]
      @ seven_seg_string [365, 378, 394] 8 '' 05'' ''small''
      @ [Text 415 15 [CHR 0xB0, CHR ''C''] (arial 10) West]) = 13"
    by (simp add: seven_seg_string_def draw_7seg_def patterns_get_def patterns_def seg_def)
  from l1 l2 have ne: "draw_outside_temp (HVACState_default\<lparr>outside_temp := 5\<rparr>) \<noteq>
      [Text 310 15 ''Outside'' (arial 10) West]
      @ seven_seg_string [365, 378, 394] 8 '' 05'' ''small''
      @ [Text 415 15 [CHR 0xB0, CHR ''C''] (arial 10) West]"
    by (metis numeral_eq_iff semiring_norm(89))
  have "length (seven_seg_string [365, 378, 394] 8 '' 05'' ''small'') = 11"
    by (simp add: seven_seg_string_def draw_7seg_def patterns_get_def patterns_def seg_def)
  moreover have "length (seven_seg_string [365, 378, 394] 8 ''-12'' ''small'') = 8"
    by (simp add: seven_seg_string_def draw_7seg_def patterns_get_def patterns_def seg_def)
  ultimately have chars: "seven_seg_string [365, 378, 394] 8 '' 05'' ''small'' \<noteq>
        seven_seg_string [365, 378, 394] 8 ''-12'' ''small''"
    by (metis numeral_eq_iff semiring_norm(89))
  note minus = minus_sign_drawn [of "HVACState_default\<lparr>outside_temp := 5\<rparr>"]
  from ne fmt same dot circle minus chars circle' show ?thesis by simp
qed

end
